theory Spec2Isabelle
  imports Complex_Main
begin

section \<open>The RAG service of ChatTube (app/rag\_service.py, app/main.py)\<close>

subsection \<open>Exceptions and the external collaborators\<close>

text \<open>
  Python exceptions as values. The service only tells \<open>TranscriptsDisabled\<close> (raised by
  the transcript provider) apart from every other \<open>Exception\<close>; both carry the text that
  \<open>str(e)\<close> gives. \<open>Exception msg\<close> is also what the service itself raises.
\<close>

datatype exn = TranscriptsDisabled string | Exception string

fun str :: "exn \<Rightarrow> string" where
  "str (TranscriptsDisabled m) = m"
| "str (Exception m) = m"

text \<open>A caption snippet; only its text is read by the service.\<close>

datatype snippet = Snippet (snippet_text: string)

text \<open>A langchain \<open>Document\<close>; only \<open>page_content\<close> is read by the service.\<close>

datatype document = Document (page_content: string)

type_synonym vec = "real list"

text \<open>
  The external services and libraries, as they answer during one call of the service.
  Each may raise. \<open>ytt_fetch\<close> takes the number of the attempt within the call as its
  first argument, so that a retry would be visible as a read of attempt 1.
  \<open>create_documents\<close> takes the splitter's chunk size and overlap first.
  \<open>as_retriever_raises\<close> and \<open>compose_raises\<close> stand for an exception thrown while the
  retriever object or the runnable pipeline is constructed, \<open>none_operand_error\<close> for the
  error of piping \<open>None\<close> into a runnable.
\<close>

record env =
  ytt_fetch :: "nat \<Rightarrow> string \<Rightarrow> string list \<Rightarrow> exn + snippet list"
  create_documents :: "nat \<Rightarrow> nat \<Rightarrow> string list \<Rightarrow> exn + document list"
  embed_documents :: "string list \<Rightarrow> exn + vec list"
  embed_query :: "string \<Rightarrow> exn + vec"
  distance :: "vec \<Rightarrow> vec \<Rightarrow> real"
  as_retriever_raises :: "exn option"
  compose_raises :: "exn option"
  none_operand_error :: exn
  llm_invoke :: "string \<Rightarrow> exn + string"

subsection \<open>Strings\<close>

text \<open>Python's \<open>sep.join(xs)\<close>.\<close>

fun join :: "string \<Rightarrow> string list \<Rightarrow> string" where
  "join sep [] = []"
| "join sep [x] = x"
| "join sep (x # y # ys) = x @ sep @ join sep (y # ys)"

subsection \<open>The service object\<close>

text \<open>
  Modelled from the spec: the vector store is the third-party FAISS index, whose code is
  not part of the sources. Following section 4.3 of the specification it is the
  collection of (vector, passage) pairs in insertion order.
\<close>

record vector_store =
  vs_entries :: "(vec \<times> document) list"

record retriever =
  r_vectorstore :: vector_store
  r_search_type :: string
  r_k :: nat

record prompt_template =
  template_before_context :: string
  template_before_question :: string
  template_after_question :: string

record chain =
  c_retriever :: retriever
  c_prompt :: prompt_template
  c_llm :: string

record text_splitter =
  chunk_size :: nat
  chunk_overlap :: nat

record rag_service =
  embeddings :: string
  llm :: string
  splitter :: text_splitter
  vector_store :: "vector_store option"
  retriever :: "retriever option"
  chain :: "chain option"
  current_video_id :: "string option"
  prompt :: prompt_template

definition newline :: string where
  "newline = [CHR 0x0A]"

definition indent :: string where
  "indent = ''            ''"

text \<open>The template of \<open>__init__\<close>, cut at its two placeholders.\<close>

definition init_prompt :: prompt_template where
  "init_prompt = \<lparr>
     template_before_context =
       newline @ indent
       @ ''You are a helpful assistant. Answer ONLY from the provided transcript context. ''
       @ newline @ indent
       @ ''If the context is insufficient to answer the query, just say you don'' @ [CHR 0x27]
       @ ''t know.''
       @ newline @ indent @ newline @ indent @ ''Context: '',
     template_before_question = newline @ indent @ ''Question: '',
     template_after_question =
       newline @ indent @ newline @ indent @ ''Answer:'' @ newline @ indent \<rparr>"

definition RAGService_init :: rag_service where
  "RAGService_init = \<lparr>
     embeddings = ''text-embedding-3-small'',
     llm = ''gpt-4o-mini'',
     splitter = \<lparr> chunk_size = 1000, chunk_overlap = 200 \<rparr>,
     vector_store = None,
     retriever = None,
     chain = None,
     current_video_id = None,
     prompt = init_prompt \<rparr>"

subsection \<open>fetch\_transcript\<close>

definition fetch_transcript :: "env \<Rightarrow> string \<Rightarrow> exn + string" where
  "fetch_transcript e vid =
     (case ytt_fetch e 0 vid [''en''] of
        Inr snippets \<Rightarrow> Inr (join '' '' (map snippet_text snippets))
      | Inl (TranscriptsDisabled m) \<Rightarrow> Inl (Exception ''Transcripts are disabled for this video'')
      | Inl (Exception m) \<Rightarrow> Inl (Exception (''Failed to fetch transcript: '' @ m)))"

subsection \<open>process\_transcript\<close>

definition process_transcript :: "env \<Rightarrow> rag_service \<Rightarrow> string \<Rightarrow> exn + document list" where
  "process_transcript e s transcript_text =
     (case create_documents e (chunk_size (splitter s)) (chunk_overlap (splitter s))
             [transcript_text] of
        Inr chunks \<Rightarrow> Inr chunks
      | Inl x \<Rightarrow> Inl (Exception (''Failed to process transcript: '' @ str x)))"

subsection \<open>The vector index and its retriever\<close>

text \<open>
  Modelled from the spec: \<open>FAISS.from_documents\<close> and the similarity search are
  third-party code that is not part of the sources. Following section 4.3 of the
  specification, building embeds the passage texts (all or nothing) and pairs each
  vector with its passage; a query returns the \<open>k\<close> passages whose vectors are closest
  to the question's vector, nearest first, ties broken by insertion order
  (\<open>sort_key\<close> is a stable insertion sort).
\<close>

definition FAISS_from_documents :: "env \<Rightarrow> document list \<Rightarrow> exn + vector_store" where
  "FAISS_from_documents e chunks =
     (case embed_documents e (map page_content chunks) of
        Inl x \<Rightarrow> Inl x
      | Inr vectors \<Rightarrow> Inr \<lparr> vs_entries = zip vectors chunks \<rparr>)"

definition similarity_search_by_vector ::
  "env \<Rightarrow> vector_store \<Rightarrow> vec \<Rightarrow> nat \<Rightarrow> document list" where
  "similarity_search_by_vector e store qv k =
     take k (map snd (sort_key (\<lambda>entry. distance e qv (fst entry)) (vs_entries store)))"

definition retriever_invoke :: "env \<Rightarrow> retriever \<Rightarrow> string \<Rightarrow> exn + document list" where
  "retriever_invoke e r question =
     (case embed_query e question of
        Inl x \<Rightarrow> Inl x
      | Inr qv \<Rightarrow> Inr (similarity_search_by_vector e (r_vectorstore r) qv (r_k r)))"

subsection \<open>\_setup\_chain and create\_vector\_store\<close>

text \<open>
  Both mutate the service and may raise, so they return the outcome together with the
  service as it is left behind.
\<close>

definition setup_chain :: "env \<Rightarrow> rag_service \<Rightarrow> (exn + unit) \<times> rag_service" where
  "setup_chain e s =
     (case compose_raises e of
        Some x \<Rightarrow> (Inl (Exception (''Failed to setup RAG chain: '' @ str x)), s)
      | None \<Rightarrow>
          (case retriever s of
             None \<Rightarrow>
               (Inl (Exception (''Failed to setup RAG chain: '' @ str (none_operand_error e))), s)
           | Some r \<Rightarrow>
               (Inr (), s\<lparr> chain := Some \<lparr> c_retriever = r, c_prompt = prompt s,
                                           c_llm = llm s \<rparr> \<rparr>)))"

definition create_vector_store ::
  "env \<Rightarrow> rag_service \<Rightarrow> document list \<Rightarrow> (exn + unit) \<times> rag_service" where
  "create_vector_store e s chunks =
     (case FAISS_from_documents e chunks of
        Inl x \<Rightarrow> (Inl (Exception (''Failed to create vector store: '' @ str x)), s)
      | Inr store \<Rightarrow>
          (let s1 = s\<lparr> vector_store := Some store \<rparr> in
           case as_retriever_raises e of
             Some x \<Rightarrow> (Inl (Exception (''Failed to create vector store: '' @ str x)), s1)
           | None \<Rightarrow>
               (let s2 = s1\<lparr> retriever := Some \<lparr> r_vectorstore = store,
                                                  r_search_type = ''similarity'',
                                                  r_k = 2 \<rparr> \<rparr> in
                case setup_chain e s2 of
                  (Inl x, s3) \<Rightarrow>
                    (Inl (Exception (''Failed to create vector store: '' @ str x)), s3)
                | (Inr u, s3) \<Rightarrow> (Inr (), s3))))"

subsection \<open>process\_video\<close>

record process_result =
  message :: string
  video_id :: string
  chunks_count :: int
  transcript_length :: int

definition process_video ::
  "env \<Rightarrow> rag_service \<Rightarrow> string \<Rightarrow> (exn + process_result) \<times> rag_service" where
  "process_video e s vid =
     (case fetch_transcript e vid of
        Inl x \<Rightarrow> (Inl x, s)
      | Inr transcript_text \<Rightarrow>
          (case process_transcript e s transcript_text of
             Inl x \<Rightarrow> (Inl x, s)
           | Inr chunks \<Rightarrow>
               (case create_vector_store e s chunks of
                  (Inl x, s') \<Rightarrow> (Inl x, s')
                | (Inr u, s') \<Rightarrow>
                    (Inr \<lparr> message = ''Video processed successfully'',
                           video_id = vid,
                           chunks_count = int (length chunks),
                           transcript_length = int (length transcript_text) \<rparr>,
                     s'\<lparr> current_video_id := Some vid \<rparr>))))"

subsection \<open>The answer chain, ask\_question, is\_ready\<close>

definition format_docs :: "document list \<Rightarrow> string" where
  "format_docs retrieved_docs = join (newline @ newline) (map page_content retrieved_docs)"

definition prompt_format :: "prompt_template \<Rightarrow> string \<Rightarrow> string \<Rightarrow> string" where
  "prompt_format p context question =
     template_before_context p @ context @ template_before_question p @ question
     @ template_after_question p"

text \<open>
  The pipeline \<open>parallel_chain | prompt | llm | StrOutputParser()\<close>: the retriever and
  \<open>format_docs\<close> give the context, the question passes through, the prompt is filled in,
  the model is called and the parser hands its text on.
\<close>

definition chain_invoke :: "env \<Rightarrow> chain \<Rightarrow> string \<Rightarrow> exn + string" where
  "chain_invoke e ch question =
     (case retriever_invoke e (c_retriever ch) question of
        Inl x \<Rightarrow> Inl x
      | Inr docs \<Rightarrow> llm_invoke e (prompt_format (c_prompt ch) (format_docs docs) question))"

definition not_processed_message :: string where
  "not_processed_message = ''No video has been processed yet. Please process a video first.''"

definition ask_question :: "env \<Rightarrow> rag_service \<Rightarrow> string \<Rightarrow> exn + string" where
  "ask_question e s question =
     (case (case chain s of
              None \<Rightarrow> Inl (Exception not_processed_message)
            | Some ch \<Rightarrow> chain_invoke e ch question) of
        Inl x \<Rightarrow> Inl (Exception (''Failed to answer question: '' @ str x))
      | Inr answer \<Rightarrow> Inr answer)"

text \<open>
  The passages the service's chain retrieves for a question: the first stage of
  \<open>chain_invoke\<close> on the chain that \<open>ask_question\<close> runs.
\<close>

definition retrieved_passages :: "env \<Rightarrow> rag_service \<Rightarrow> string \<Rightarrow> exn + document list" where
  "retrieved_passages e s question =
     (case chain s of
        None \<Rightarrow> Inl (Exception not_processed_message)
      | Some ch \<Rightarrow> retriever_invoke e (c_retriever ch) question)"

definition is_ready :: "rag_service \<Rightarrow> bool" where
  "is_ready s \<longleftrightarrow> chain s \<noteq> None \<and> current_video_id s \<noteq> None"

definition get_current_video_id :: "rag_service \<Rightarrow> string option" where
  "get_current_video_id s = current_video_id s"

subsection \<open>The chat endpoint (app/main.py)\<close>

datatype http_exception = HTTPException (status_code: nat) (detail: string)

record chat_response =
  answer :: string
  status :: string

definition not_ready_detail :: string where
  "not_ready_detail =
     ''No video has been processed yet. Please process a video first using /process-video endpoint.''"

text \<open>
  The global \<open>rag_service\<close> is \<open>None\<close> until startup has run. An \<open>HTTPException\<close> raised
  inside the handler is re-raised as it is; any other exception becomes a 500.
\<close>

definition chat :: "env \<Rightarrow> rag_service option \<Rightarrow> string \<Rightarrow> http_exception + chat_response" where
  "chat e rag question =
     (case rag of
        None \<Rightarrow> Inl (HTTPException 503 ''RAG service is not available'')
      | Some s \<Rightarrow>
          if \<not> is_ready s then Inl (HTTPException 400 not_ready_detail)
          else (case ask_question e s question of
                  Inr a \<Rightarrow> Inr \<lparr> answer = a, status = ''success'' \<rparr>
                | Inl x \<Rightarrow> Inl (HTTPException 500 (''Failed to process question: '' @ str x))))"

subsection \<open>Sequences of calls\<close>

datatype op = ProcessVideo string | AskQuestion string

datatype outcome = Processed "exn + process_result" | Answered "exn + string"

fun step :: "env \<Rightarrow> op \<Rightarrow> rag_service \<Rightarrow> outcome \<times> rag_service" where
  "step e (ProcessVideo vid) s = (let (r, s') = process_video e s vid in (Processed r, s'))"
| "step e (AskQuestion q) s = (Answered (ask_question e s q), s)"

text \<open>
  A run of the service: each call comes with the answers the outside world gives during
  that call, so a video may fail to load once and load later.
\<close>

fun run :: "rag_service \<Rightarrow> (env \<times> op) list \<Rightarrow> outcome list \<times> rag_service" where
  "run s [] = ([], s)"
| "run s ((e, c) # rest) =
     (let (r, s') = step e c s; (rs, s'') = run s' rest in (r # rs, s''))"

fun successful_ingestion :: "outcome \<Rightarrow> bool" where
  "successful_ingestion (Processed (Inr r)) = True"
| "successful_ingestion (Processed (Inl x)) = False"
| "successful_ingestion (Answered a) = False"

text \<open>The passages a successful ingestion of a video indexes.\<close>

definition ingested_chunks :: "env \<Rightarrow> rag_service \<Rightarrow> string \<Rightarrow> document list" where
  "ingested_chunks e s vid =
     (case fetch_transcript e vid of
        Inl x \<Rightarrow> []
      | Inr t \<Rightarrow> (case process_transcript e s t of Inl x \<Rightarrow> [] | Inr chunks \<Rightarrow> chunks))"

subsection \<open>The chunker of the specification\<close>

text \<open>
  Modelled from the spec: the text splitter is the third-party
  \<open>RecursiveCharacterTextSplitter\<close>, whose code is not part of the sources. Section 4.2 of
  the specification describes it as consecutive windows of up to \<open>sz\<close> characters, each
  window after the first overlapping the previous one by \<open>overlap\<close> characters, the last
  window possibly shorter, and no window for the empty text. The splitter's constructor
  rejects an overlap that is not below the size; the guard keeps the function total.
\<close>

function split_windows :: "nat \<Rightarrow> nat \<Rightarrow> string \<Rightarrow> string list" where
  "split_windows sz overlap t =
     (if t = [] then []
      else if length t \<le> sz \<or> sz \<le> overlap then [t]
      else take sz t # split_windows sz overlap (drop (sz - overlap) t))"
  by pat_completeness auto
termination
  by (relation "measure (\<lambda>(sz, overlap, t). length t)") auto

definition spec_create_documents :: "nat \<Rightarrow> nat \<Rightarrow> string list \<Rightarrow> exn + document list" where
  "spec_create_documents sz overlap texts =
     Inr (map Document (concat (map (split_windows sz overlap) texts)))"

subsection \<open>Sample collaborators\<close>

definition sample_fetch :: "nat \<Rightarrow> string \<Rightarrow> string list \<Rightarrow> exn + snippet list" where
  "sample_fetch attempt vid languages =
     (if vid = ''abc12345678'' then Inr [Snippet ''cats are great pets'', Snippet ''cats purr'']
      else if vid = ''xyz12345678'' then Inr [Snippet ''dogs bark'']
      else if vid = ''off12345678'' then Inl (TranscriptsDisabled ''Subtitles are disabled'')
      else Inl (Exception ''Video unavailable''))"

definition sample_env :: env where
  "sample_env = \<lparr>
     ytt_fetch = sample_fetch,
     create_documents = spec_create_documents,
     embed_documents = (\<lambda>texts. Inr (map (\<lambda>t. [real (length t)]) texts)),
     embed_query = (\<lambda>q. Inr [real (length q)]),
     distance = (\<lambda>a b. \<bar>sum_list a - sum_list b\<bar>),
     as_retriever_raises = None,
     compose_raises = None,
     none_operand_error = Exception ''unsupported operand type'',
     llm_invoke = (\<lambda>p. Inr ''They purr.'') \<rparr>"

definition quota_env :: env where
  "quota_env = sample_env\<lparr> embed_documents := (\<lambda>texts. Inl (Exception ''quota exceeded'')) \<rparr>"

text \<open>A provider whose first attempt fails and whose later attempts would succeed.\<close>

definition flaky_env :: env where
  "flaky_env = sample_env\<lparr> ytt_fetch :=
     (\<lambda>attempt vid languages.
        if attempt = 0 then Inl (Exception ''Connection reset'')
        else sample_fetch attempt vid languages) \<rparr>"

text \<open>A splitter that cuts every transcript into the same three passages.\<close>

definition three_env :: env where
  "three_env = sample_env\<lparr> create_documents :=
     (\<lambda>sz overlap texts.
        Inr [Document ''cats are great pets'', Document ''cats purr'', Document ''cats nap'']) \<rparr>"

text \<open>A generation service that answers with the prompt it was given.\<close>

definition echo_env :: env where
  "echo_env = three_env\<lparr> llm_invoke := (\<lambda>p. Inr p) \<rparr>"

text \<open>A generation service that fails with the words of the not-processed message.\<close>

definition refusing_env :: env where
  "refusing_env = sample_env\<lparr> llm_invoke := (\<lambda>p. Inl (Exception not_processed_message)) \<rparr>"

definition cats_ready :: rag_service where
  "cats_ready = snd (process_video sample_env RAGService_init ''abc12345678'')"

definition dogs_ready :: rag_service where
  "dogs_ready = snd (process_video sample_env cats_ready ''xyz12345678'')"

section \<open>Auxiliary facts\<close>

declare split_windows.simps [simp del]

lemma split_windows_empty: "split_windows sz ov [] = []"
  by (simp add: split_windows.simps)

lemma split_windows_short: "t \<noteq> [] \<Longrightarrow> length t \<le> sz \<Longrightarrow> split_windows sz ov t = [t]"
  by (subst split_windows.simps) simp

lemma setup_chain_Inl: "setup_chain e s = (Inl x, s') \<Longrightarrow> s' = s"
  by (auto simp: setup_chain_def split: option.splits)

lemma setup_chain_Inr:
  "setup_chain e s = (Inr u, s') \<Longrightarrow>
     \<exists>r. retriever s = Some r \<and>
         s' = s\<lparr> chain := Some \<lparr> c_retriever = r, c_prompt = prompt s, c_llm = llm s \<rparr> \<rparr>"
  by (auto simp: setup_chain_def split: option.splits)

lemma create_vector_store_Inl:
  "create_vector_store e s chunks = (Inl x, s') \<Longrightarrow>
     chain s' = chain s \<and> current_video_id s' = current_video_id s \<and> prompt s' = prompt s
     \<and> llm s' = llm s \<and> splitter s' = splitter s"
  by (auto simp: create_vector_store_def Let_def split: sum.splits option.splits prod.splits
           dest!: setup_chain_Inl)

lemma create_vector_store_Inr:
  "create_vector_store e s chunks = (Inr u, s') \<Longrightarrow>
     \<exists>store. FAISS_from_documents e chunks = Inr store \<and>
       s' = s\<lparr> vector_store := Some store,
               retriever := Some \<lparr> r_vectorstore = store, r_search_type = ''similarity'', r_k = 2 \<rparr>,
               chain := Some \<lparr> c_retriever = \<lparr> r_vectorstore = store, r_search_type = ''similarity'', r_k = 2 \<rparr>,
                               c_prompt = prompt s, c_llm = llm s \<rparr> \<rparr>"
  by (auto simp: create_vector_store_def Let_def split: sum.splits option.splits prod.splits
           dest!: setup_chain_Inr)

lemma process_video_Inl:
  "process_video e s vid = (Inl x, s') \<Longrightarrow>
     chain s' = chain s \<and> current_video_id s' = current_video_id s \<and> prompt s' = prompt s
     \<and> llm s' = llm s \<and> splitter s' = splitter s"
  by (auto simp: process_video_def split: sum.splits prod.splits dest!: create_vector_store_Inl)

lemma process_video_Inr:
  "process_video e s vid = (Inr r, s') \<Longrightarrow>
     \<exists>t chunks store. fetch_transcript e vid = Inr t \<and> process_transcript e s t = Inr chunks \<and>
       FAISS_from_documents e chunks = Inr store \<and>
       r = \<lparr> message = ''Video processed successfully'', video_id = vid,
             chunks_count = int (length chunks), transcript_length = int (length t) \<rparr> \<and>
       s' = s\<lparr> vector_store := Some store,
               retriever := Some \<lparr> r_vectorstore = store, r_search_type = ''similarity'', r_k = 2 \<rparr>,
               chain := Some \<lparr> c_retriever = \<lparr> r_vectorstore = store, r_search_type = ''similarity'', r_k = 2 \<rparr>,
                               c_prompt = prompt s, c_llm = llm s \<rparr>,
               current_video_id := Some vid \<rparr>"
  by (auto simp: process_video_def split: sum.splits prod.splits dest!: create_vector_store_Inr)

lemmas service_defs =
  fetch_transcript_def process_transcript_def FAISS_from_documents_def
  similarity_search_by_vector_def retriever_invoke_def setup_chain_def
  create_vector_store_def process_video_def format_docs_def prompt_format_def
  chain_invoke_def ask_question_def is_ready_def retrieved_passages_def
  spec_create_documents_def

lemmas sample_defs =
  sample_fetch_def sample_env_def quota_env_def flaky_env_def three_env_def echo_env_def refusing_env_def
  RAGService_init_def

lemma step_ready:
  "step e c s = (r, s') \<Longrightarrow> is_ready s' \<longleftrightarrow> is_ready s \<or> successful_ingestion r"
proof (cases c)
  case (ProcessVideo vid)
  assume st: "step e c s = (r, s')"
  obtain res t where pv: "process_video e s vid = (res, t)" by (cases "process_video e s vid")
  with st ProcessVideo have r: "r = Processed res" and t: "t = s'" by auto
  show ?thesis
  proof (cases res)
    case (Inl x)
    with pv t process_video_Inl [of e s vid x s'] r show ?thesis by (simp add: is_ready_def)
  next
    case (Inr pr)
    with pv t process_video_Inr [of e s vid pr s'] r show ?thesis by (auto simp: is_ready_def)
  qed
next
  case (AskQuestion q)
  assume "step e c s = (r, s')"
  with AskQuestion show ?thesis by auto
qed

lemma run_ready:
  "is_ready (snd (run s calls)) \<longleftrightarrow> is_ready s \<or> list_ex successful_ingestion (fst (run s calls))"
proof (induction calls arbitrary: s)
  case Nil
  show ?case by simp
next
  case (Cons a calls)
  obtain e c where a: "a = (e, c)" by (cases a)
  obtain r s' where st: "step e c s = (r, s')" by (cases "step e c s")
  obtain rs s'' where rn: "run s' calls = (rs, s'')" by (cases "run s' calls")
  from Cons.IH [of s'] rn have "is_ready s'' \<longleftrightarrow> is_ready s' \<or> list_ex successful_ingestion rs"
    by simp
  with step_ready [OF st] a st rn show ?case by auto
qed

lemma create_vector_store_Inl_same:
  "create_vector_store e s chunks = (Inl x, s') \<Longrightarrow> as_retriever_raises e = None \<Longrightarrow>
     compose_raises e = None \<Longrightarrow> s' = s"
  by (auto simp: create_vector_store_def setup_chain_def Let_def
           split: sum.splits option.splits prod.splits)

lemma process_video_Inl_same:
  "process_video e s vid = (Inl x, s') \<Longrightarrow> as_retriever_raises e = None \<Longrightarrow>
     compose_raises e = None \<Longrightarrow> s' = s"
  by (auto simp: process_video_def split: sum.splits prod.splits
           dest: create_vector_store_Inl_same)

lemma cats_ready_eq:
  "process_video sample_env RAGService_init ''abc12345678'' =
     (Inr \<lparr> message = ''Video processed successfully'', video_id = ''abc12345678'',
            chunks_count = 1, transcript_length = 29 \<rparr>, cats_ready)"
  by (simp add: cats_ready_def service_defs sample_defs split_windows_short)

lemma cats_ready_is_ready: "is_ready cats_ready"
  by (simp add: cats_ready_def service_defs sample_defs split_windows_short)

lemma cats_ready_fields:
  "current_video_id cats_ready = Some ''abc12345678''"
  by (simp add: cats_ready_def service_defs sample_defs split_windows_short)

lemma similarity_search_subset:
  "set (similarity_search_by_vector e \<lparr> vs_entries = zip vectors chunks \<rparr> qv k) \<subseteq> set chunks"
proof -
  have "set (similarity_search_by_vector e \<lparr> vs_entries = zip vectors chunks \<rparr> qv k)
          \<subseteq> snd ` set (zip vectors chunks)"
    using set_take_subset [of k] by (fastforce simp: similarity_search_by_vector_def)
  also have "\<dots> \<subseteq> set chunks" by (auto dest: set_zip_rightD)
  finally show ?thesis .
qed

lemma ingestion_store:
  assumes "process_video e s vid = (Inr r, s')"
  shows "\<exists>vectors. embed_documents e (map page_content (ingested_chunks e s vid)) = Inr vectors
           \<and> vector_store s' = Some \<lparr> vs_entries = zip vectors (ingested_chunks e s vid) \<rparr>
           \<and> retriever s' = Some \<lparr> r_vectorstore = \<lparr> vs_entries = zip vectors (ingested_chunks e s vid) \<rparr>,
                                    r_search_type = ''similarity'', r_k = 2 \<rparr>
           \<and> chain s' = Some \<lparr> c_retriever = \<lparr> r_vectorstore = \<lparr> vs_entries = zip vectors (ingested_chunks e s vid) \<rparr>,
                                    r_search_type = ''similarity'', r_k = 2 \<rparr>,
                                 c_prompt = prompt s, c_llm = llm s \<rparr>
           \<and> current_video_id s' = Some vid"
proof -
  from process_video_Inr [OF assms] obtain t chunks store where
    t: "fetch_transcript e vid = Inr t" and c: "process_transcript e s t = Inr chunks" and
    f: "FAISS_from_documents e chunks = Inr store" and
    s': "s' = s\<lparr> vector_store := Some store,
               retriever := Some \<lparr> r_vectorstore = store, r_search_type = ''similarity'', r_k = 2 \<rparr>,
               chain := Some \<lparr> c_retriever = \<lparr> r_vectorstore = store, r_search_type = ''similarity'', r_k = 2 \<rparr>,
                               c_prompt = prompt s, c_llm = llm s \<rparr>,
               current_video_id := Some vid \<rparr>"
    by blast
  from t c have ic: "ingested_chunks e s vid = chunks" by (simp add: ingested_chunks_def)
  from f obtain vectors where v: "embed_documents e (map page_content chunks) = Inr vectors"
    and st: "store = \<lparr> vs_entries = zip vectors chunks \<rparr>"
    by (auto simp: FAISS_from_documents_def split: sum.splits)
  from v st s' ic show ?thesis by simp
qed

lemma process_video_splitter:
  "process_video e s vid = (r, s') \<Longrightarrow> splitter s' = splitter s \<and> prompt s' = prompt s \<and> llm s' = llm s"
  using process_video_Inl [of e s vid _ s'] process_video_Inr [of e s vid _ s']
  by (cases r) auto

lemma create_vector_store_Inr_env:
  "create_vector_store e s chunks = (Inr u, s') \<Longrightarrow>
     as_retriever_raises e = None \<and> compose_raises e = None"
  by (auto simp: create_vector_store_def setup_chain_def Let_def
           split: sum.splits option.splits prod.splits)

lemma create_vector_store_run:
  assumes "FAISS_from_documents e chunks = Inr store"
    and "as_retriever_raises e = None" and "compose_raises e = None"
  shows "create_vector_store e t chunks =
     (Inr (), t\<lparr> vector_store := Some store,
               retriever := Some \<lparr> r_vectorstore = store, r_search_type = ''similarity'', r_k = 2 \<rparr>,
               chain := Some \<lparr> c_retriever = \<lparr> r_vectorstore = store, r_search_type = ''similarity'', r_k = 2 \<rparr>,
                               c_prompt = prompt t, c_llm = llm t \<rparr> \<rparr>)"
  using assms by (simp add: create_vector_store_def setup_chain_def Let_def)

lemma process_video_succeeds_alike:
  assumes ok: "process_video e s vid = (Inr r, s')" and sp: "splitter t = splitter s"
  shows "vector_store (snd (process_video e t vid)) = vector_store s'
            \<and> retriever (snd (process_video e t vid)) = retriever s'"
proof -
  from process_video_Inr [OF ok] obtain tr chunks store where
    tr: "fetch_transcript e vid = Inr tr" and c: "process_transcript e s tr = Inr chunks" and
    f: "FAISS_from_documents e chunks = Inr store" and
    s': "s' = s\<lparr> vector_store := Some store,
               retriever := Some \<lparr> r_vectorstore = store, r_search_type = ''similarity'', r_k = 2 \<rparr>,
               chain := Some \<lparr> c_retriever = \<lparr> r_vectorstore = store, r_search_type = ''similarity'', r_k = 2 \<rparr>,
                               c_prompt = prompt s, c_llm = llm s \<rparr>,
               current_video_id := Some vid \<rparr>"
    by blast
  from c sp have c': "process_transcript e t tr = Inr chunks"
    by (simp add: process_transcript_def)
  obtain u s1 where cv: "create_vector_store e s chunks = (Inr u, s1)"
    using ok tr c by (auto simp: process_video_def split: sum.splits prod.splits)
  note env = create_vector_store_Inr_env [OF cv]
  from create_vector_store_run [OF f, of t] env tr c' s'
  show ?thesis by (simp add: process_video_def)
qed

lemma dogs_ready_eq:
  "process_video sample_env cats_ready ''xyz12345678'' =
     (Inr \<lparr> message = ''Video processed successfully'', video_id = ''xyz12345678'',
            chunks_count = 1, transcript_length = 9 \<rparr>, dogs_ready)"
  by (simp add: dogs_ready_def cats_ready_def service_defs sample_defs split_windows_short)

lemma run_invariant:
  "prompt s = init_prompt \<Longrightarrow>
   (\<forall>ch. chain s = Some ch \<longrightarrow> r_k (c_retriever ch) = 2 \<and> c_prompt ch = init_prompt) \<Longrightarrow>
   prompt (snd (run s calls)) = init_prompt
   \<and> (\<forall>ch. chain (snd (run s calls)) = Some ch \<longrightarrow> r_k (c_retriever ch) = 2 \<and> c_prompt ch = init_prompt)"
proof (induction calls arbitrary: s)
  case Nil
  then show ?case by simp
next
  case (Cons a calls)
  obtain e c where a: "a = (e, c)" by (cases a)
  obtain r s' where st: "step e c s = (r, s')" by (cases "step e c s")
  have inv: "prompt s' = init_prompt
     \<and> (\<forall>ch. chain s' = Some ch \<longrightarrow> r_k (c_retriever ch) = 2 \<and> c_prompt ch = init_prompt)"
  proof (cases c)
    case (ProcessVideo vid)
    obtain res where pv: "process_video e s vid = (res, s')"
      using st ProcessVideo by (cases "process_video e s vid") auto
    show ?thesis
    proof (cases res)
      case (Inl x)
      with pv process_video_Inl [of e s vid x s'] Cons.prems show ?thesis by simp
    next
      case (Inr pr)
      with pv process_video_Inr [of e s vid pr s'] Cons.prems show ?thesis by auto
    qed
  next
    case (AskQuestion q)
    with st Cons.prems show ?thesis by auto
  qed
  from Cons.IH [of s'] inv have "prompt (snd (run s' calls)) = init_prompt
   \<and> (\<forall>ch. chain (snd (run s' calls)) = Some ch \<longrightarrow> r_k (c_retriever ch) = 2 \<and> c_prompt ch = init_prompt)"
    by blast
  with a st show ?case by (simp add: split_beta)
qed

section \<open>Properties\<close>

text \<open>
  C1. An ingestion that fails, at whatever step, leaves \<open>current_video_id\<close> and the value
  of \<open>is_ready\<close> as they were before the call. When neither the retriever nor the
  pipeline construction raised (so the failure is in the transcript fetch, the chunking
  or the index build), the whole service object is unchanged.
\<close>

theorem failed_ingestion_keeps_session:
  assumes "process_video e s vid = (Inl x, s')"
  shows "current_video_id s' = current_video_id s \<and> is_ready s' = is_ready s
         \<and> get_current_video_id s' = get_current_video_id s
         \<and> (as_retriever_raises e = None \<and> compose_raises e = None \<longrightarrow> s' = s)"
  using process_video_Inl [OF assms] process_video_Inl_same [OF assms]
  by (simp add: is_ready_def get_current_video_id_def)

theorem failed_ingestion_keeps_session_witness:
  "process_video quota_env cats_ready ''xyz12345678''
     = (Inl (Exception ''Failed to create vector store: quota exceeded''), cats_ready)
   \<and> as_retriever_raises quota_env = None \<and> compose_raises quota_env = None
   \<and> current_video_id cats_ready = Some ''abc12345678'' \<and> is_ready cats_ready"
proof -
  have h: "process_video quota_env cats_ready ''xyz12345678''
     = (Inl (Exception ''Failed to create vector store: quota exceeded''), cats_ready)"
    by (simp add: cats_ready_def service_defs sample_defs split_windows_short)
  have n: "as_retriever_raises quota_env = None \<and> compose_raises quota_env = None"
    by (simp add: sample_defs)
  from failed_ingestion_keeps_session [OF h] h n cats_ready_fields cats_ready_is_ready
  show ?thesis by simp
qed

text \<open>
  C2. Starting from the freshly initialised service, after any sequence of calls
  \<open>is_ready\<close> holds exactly when some \<open>process_video\<close> call of the sequence has
  succeeded; in particular it is false right after initialisation.
\<close>

theorem ready_iff_some_ingestion_succeeded:
  "is_ready (snd (run RAGService_init calls))
     \<longleftrightarrow> list_ex successful_ingestion (fst (run RAGService_init calls))"
  using run_ready [of RAGService_init calls] by (simp add: is_ready_def RAGService_init_def)

theorem ready_iff_some_ingestion_succeeded_witness:
  "\<not> is_ready (snd (run RAGService_init []))
   \<and> \<not> is_ready (snd (run RAGService_init
          [(sample_env, AskQuestion ''what do cats do?''), (quota_env, ProcessVideo ''abc12345678'')]))
   \<and> is_ready (snd (run RAGService_init
          [(quota_env, ProcessVideo ''abc12345678''), (sample_env, ProcessVideo ''abc12345678''),
           (quota_env, ProcessVideo ''xyz12345678'')]))"
proof -
  have a: "\<not> list_ex successful_ingestion (fst (run RAGService_init []))" by simp
  have b: "\<not> list_ex successful_ingestion (fst (run RAGService_init
          [(sample_env, AskQuestion ''what do cats do?''), (quota_env, ProcessVideo ''abc12345678'')]))"
    by (simp add: service_defs sample_defs split_windows_short)
  have c: "list_ex successful_ingestion (fst (run RAGService_init
          [(quota_env, ProcessVideo ''abc12345678''), (sample_env, ProcessVideo ''abc12345678''),
           (quota_env, ProcessVideo ''xyz12345678'')]))"
    by (simp add: service_defs sample_defs split_windows_short)
  from a b c show ?thesis
    unfolding ready_iff_some_ingestion_succeeded by blast
qed

text \<open>
  C3. After video A and then video B have been ingested successfully, the passages
  retrieved for any later question are all passages of B. The index and the retriever are
  the ones an ingestion of B yields without A ever having been ingested, the chain reads
  from that retriever, the answer is generated from the retrieved passages, and asking
  leaves the service as it is.
\<close>

theorem reingestion_replaces_index:
  assumes "process_video eA s0 a = (Inr rA, s1)"
    and "process_video eB s1 b = (Inr rB, s2)"
    and "retrieved_passages e s2 question = Inr docs"
  shows "set docs \<subseteq> set (ingested_chunks eB s1 b)
     \<and> vector_store s2 = vector_store (snd (process_video eB s0 b))
     \<and> retriever s2 = retriever (snd (process_video eB s0 b))
     \<and> map_option c_retriever (chain s2) = retriever s2
     \<and> ask_question e s2 question =
         (case llm_invoke e (prompt_format (prompt s2) (format_docs docs) question) of
            Inl x \<Rightarrow> Inl (Exception (''Failed to answer question: '' @ str x))
          | Inr reply \<Rightarrow> Inr reply)
     \<and> snd (step e (AskQuestion question) s2) = s2"
proof -
  from ingestion_store [OF assms(2)] obtain vectors where
    ch: "chain s2 = Some \<lparr> c_retriever = \<lparr> r_vectorstore = \<lparr> vs_entries = zip vectors (ingested_chunks eB s1 b) \<rparr>,
                                    r_search_type = ''similarity'', r_k = 2 \<rparr>,
                                 c_prompt = prompt s1, c_llm = llm s1 \<rparr>"
    and rt: "retriever s2 = Some \<lparr> r_vectorstore = \<lparr> vs_entries = zip vectors (ingested_chunks eB s1 b) \<rparr>,
                                    r_search_type = ''similarity'', r_k = 2 \<rparr>"
    by blast
  from assms(3) ch obtain qv where
    "docs = similarity_search_by_vector e \<lparr> vs_entries = zip vectors (ingested_chunks eB s1 b) \<rparr> qv 2"
    by (auto simp: retrieved_passages_def retriever_invoke_def split: sum.splits)
  then have sub: "set docs \<subseteq> set (ingested_chunks eB s1 b)"
    using similarity_search_subset by simp
  from process_video_splitter [OF assms(1)] have "splitter s0 = splitter s1" by simp
  from process_video_succeeds_alike [OF assms(2) this]
  have same: "vector_store s2 = vector_store (snd (process_video eB s0 b))
     \<and> retriever s2 = retriever (snd (process_video eB s0 b))"
    by auto
  from process_video_splitter [OF assms(2)] have pr: "prompt s2 = prompt s1" by simp
  from assms(3) ch pr have ask: "ask_question e s2 question =
         (case llm_invoke e (prompt_format (prompt s2) (format_docs docs) question) of
            Inl x \<Rightarrow> Inl (Exception (''Failed to answer question: '' @ str x))
          | Inr reply \<Rightarrow> Inr reply)"
    by (simp add: ask_question_def chain_invoke_def retrieved_passages_def)
  from sub same ch rt ask show ?thesis by simp
qed

theorem reingestion_replaces_index_witness:
  "process_video sample_env RAGService_init ''abc12345678'' =
     (Inr \<lparr> message = ''Video processed successfully'', video_id = ''abc12345678'',
            chunks_count = 1, transcript_length = 29 \<rparr>, cats_ready)
   \<and> process_video sample_env cats_ready ''xyz12345678'' =
     (Inr \<lparr> message = ''Video processed successfully'', video_id = ''xyz12345678'',
            chunks_count = 1, transcript_length = 9 \<rparr>, dogs_ready)
   \<and> retrieved_passages sample_env dogs_ready ''what do dogs do?'' = Inr [Document ''dogs bark'']
   \<and> set [Document ''dogs bark''] \<subseteq> set (ingested_chunks sample_env cats_ready ''xyz12345678'')
   \<and> ingested_chunks sample_env RAGService_init ''abc12345678''
        = [Document ''cats are great pets cats purr'']"
proof -
  have r: "retrieved_passages sample_env dogs_ready ''what do dogs do?'' = Inr [Document ''dogs bark'']"
    by (simp add: dogs_ready_def cats_ready_def service_defs sample_defs split_windows_short)
  have a: "ingested_chunks sample_env RAGService_init ''abc12345678''
        = [Document ''cats are great pets cats purr'']"
    by (simp add: ingested_chunks_def service_defs sample_defs split_windows_short)
  from reingestion_replaces_index [OF cats_ready_eq dogs_ready_eq r] cats_ready_eq dogs_ready_eq r a
  show ?thesis by simp
qed

text \<open>
  C4, as the claim states it, fails: the failure \<open>ask_question\<close> raises while no video
  has been processed is an \<open>Exception\<close> with the same wrapper as an internal failure, and
  it coincides with the failure of a query in the ready state whose generation service
  fails with the words of the not-processed message.
\<close>

theorem not_ready_error_counterexample:
  "\<not> is_ready RAGService_init \<and> is_ready cats_ready
   \<and> ask_question refusing_env RAGService_init ''what do cats do?''
       = Inl (Exception ''Failed to answer question: No video has been processed yet. Please process a video first.'')
   \<and> ask_question refusing_env cats_ready ''what do cats do?''
       = Inl (Exception ''Failed to answer question: No video has been processed yet. Please process a video first.'')"
  by (simp add: cats_ready_def service_defs sample_defs not_processed_message_def split_windows_short)

text \<open>
  C4, amended. While no video has been processed, \<open>ask_question\<close> raises the generic
  \<open>Exception\<close> with the wrapped not-processed message, and the chat endpoint, which tests
  \<open>is_ready\<close> first, answers with the client error 400 and the not-ready detail. Every
  failure of a chat query in the ready state is a 500, so the endpoint keeps the two
  apart.
\<close>

theorem not_ready_is_client_error:
  assumes "chain s0 = None" and "is_ready s1" and "chat e1 (Some s1) q1 = Inl h"
  shows "ask_question e0 s0 q0 = Inl (Exception (''Failed to answer question: '' @ not_processed_message))
     \<and> chat e0 (Some s0) q0 = Inl (HTTPException 400 not_ready_detail)
     \<and> status_code h = 500
     \<and> chat e0 (Some s0) q0 \<noteq> Inl h"
proof -
  from assms(1) have nr: "\<not> is_ready s0" by (simp add: is_ready_def)
  from assms(1) have a: "ask_question e0 s0 q0
      = Inl (Exception (''Failed to answer question: '' @ not_processed_message))"
    by (simp add: ask_question_def)
  from nr have c: "chat e0 (Some s0) q0 = Inl (HTTPException 400 not_ready_detail)"
    by (simp add: chat_def)
  from assms(2,3) have h: "status_code h = 500"
    by (auto simp: chat_def split: sum.splits)
  from a c h show ?thesis by auto
qed

theorem not_ready_is_client_error_witness:
  "chain RAGService_init = None \<and> is_ready cats_ready
   \<and> chat refusing_env (Some cats_ready) ''what do cats do?''
       = Inl (HTTPException 500
           ''Failed to process question: Failed to answer question: No video has been processed yet. Please process a video first.'')
   \<and> chat refusing_env (Some RAGService_init) ''what do cats do?''
       = Inl (HTTPException 400 not_ready_detail)"
proof -
  have a: "chain RAGService_init = None" by (simp add: RAGService_init_def)
  have c: "chat refusing_env (Some cats_ready) ''what do cats do?''
       = Inl (HTTPException 500
           ''Failed to process question: Failed to answer question: No video has been processed yet. Please process a video first.'')"
    by (simp add: chat_def cats_ready_def service_defs sample_defs not_processed_message_def
          split_windows_short)
  from not_ready_is_client_error [OF a cats_ready_is_ready c, of refusing_env "''what do cats do?''"]
    a cats_ready_is_ready c
  show ?thesis by simp
qed

text \<open>
  C6. With the chunker of the specification as the text splitter, \<open>process_transcript\<close>
  returns no passage for the empty transcript, without raising, and exactly one passage
  equal to the input for every non-empty transcript shorter than 1000 characters.
\<close>

theorem chunker_boundary_cases:
  "process_transcript (e\<lparr> create_documents := spec_create_documents \<rparr>) RAGService_init [] = Inr []
   \<and> (t \<noteq> [] \<and> length t < 1000 \<longrightarrow>
        process_transcript (e\<lparr> create_documents := spec_create_documents \<rparr>) RAGService_init t
          = Inr [Document t])"
  by (simp add: process_transcript_def spec_create_documents_def RAGService_init_def
        split_windows_empty split_windows_short)

theorem chunker_boundary_cases_witness:
  "''cats are great pets cats purr'' \<noteq> [] \<and> length ''cats are great pets cats purr'' < 1000
   \<and> process_transcript (sample_env\<lparr> create_documents := spec_create_documents \<rparr>)
        RAGService_init ''cats are great pets cats purr''
        = Inr [Document ''cats are great pets cats purr'']"
  using chunker_boundary_cases [of sample_env "''cats are great pets cats purr''"] by simp

text \<open>
  C7. In every state reached from the initial one in which a chain is installed,
  \<open>ask_question\<close> embeds the question, takes the 2 nearest passages of the chain's index,
  joins their texts with a blank line in retrieval order, puts this context and the
  question as it is into the template of \<open>__init__\<close>, and returns the text of the
  generation model unchanged; a failure of the embedding or of the model is raised as
  \<open>Failed to answer question\<close>.
\<close>

theorem ask_question_in_ready_state:
  assumes "s = snd (run RAGService_init calls)"
    and "chain s = Some ch"
  shows "ask_question e s question =
     (case embed_query e question of
        Inl x \<Rightarrow> Inl (Exception (''Failed to answer question: '' @ str x))
      | Inr qv \<Rightarrow>
          (case llm_invoke e
                  (template_before_context init_prompt
                   @ join (newline @ newline)
                       (map page_content
                          (take 2 (map snd (sort_key (\<lambda>entry. distance e qv (fst entry))
                                              (vs_entries (r_vectorstore (c_retriever ch)))))))
                   @ template_before_question init_prompt @ question
                   @ template_after_question init_prompt) of
             Inl x \<Rightarrow> Inl (Exception (''Failed to answer question: '' @ str x))
           | Inr reply \<Rightarrow> Inr reply))"
proof -
  have "r_k (c_retriever ch) = 2 \<and> c_prompt ch = init_prompt"
    using run_invariant [of RAGService_init calls] assms by (simp add: RAGService_init_def)
  with assms(2) show ?thesis
    by (simp add: ask_question_def chain_invoke_def retriever_invoke_def
          similarity_search_by_vector_def format_docs_def prompt_format_def split: sum.splits)
qed

theorem ask_question_in_ready_state_witness:
  "chain (snd (run RAGService_init [(three_env, ProcessVideo ''abc12345678'')]))
     = Some \<lparr> c_retriever =
                \<lparr> r_vectorstore =
                    \<lparr> vs_entries = [([19], Document ''cats are great pets''),
                                    ([9], Document ''cats purr''),
                                    ([8], Document ''cats nap'')] \<rparr>,
                  r_search_type = ''similarity'', r_k = 2 \<rparr>,
              c_prompt = init_prompt, c_llm = ''gpt-4o-mini'' \<rparr>
   \<and> ask_question echo_env (snd (run RAGService_init [(three_env, ProcessVideo ''abc12345678'')]))
        ''cats purr?''
     = Inr (template_before_context init_prompt
            @ ''cats purr'' @ newline @ newline @ ''cats nap''
            @ template_before_question init_prompt @ ''cats purr?''
            @ template_after_question init_prompt)"
proof -
  have c: "chain (snd (run RAGService_init [(three_env, ProcessVideo ''abc12345678'')]))
     = Some \<lparr> c_retriever =
                \<lparr> r_vectorstore =
                    \<lparr> vs_entries = [([19], Document ''cats are great pets''),
                                    ([9], Document ''cats purr''),
                                    ([8], Document ''cats nap'')] \<rparr>,
                  r_search_type = ''similarity'', r_k = 2 \<rparr>,
              c_prompt = init_prompt, c_llm = ''gpt-4o-mini'' \<rparr>"
    by (simp add: service_defs sample_defs)
  from ask_question_in_ready_state [OF refl c, of echo_env "''cats purr?''"] c
  show ?thesis by (simp add: sample_defs)
qed

text \<open>
  C8. Whenever the transcription service returns caption snippets, \<open>fetch_transcript\<close>
  returns one string: the snippet texts in their returned order, joined with single
  spaces.
\<close>

theorem fetch_transcript_joins_snippets:
  assumes "ytt_fetch e 0 vid [''en''] = Inr snippets"
  shows "fetch_transcript e vid = Inr (join '' '' (map snippet_text snippets))"
  using assms by (simp add: fetch_transcript_def)

theorem fetch_transcript_joins_snippets_witness:
  "ytt_fetch sample_env 0 ''abc12345678'' [''en'']
     = Inr [Snippet ''cats are great pets'', Snippet ''cats purr'']
   \<and> fetch_transcript sample_env ''abc12345678'' = Inr ''cats are great pets cats purr''"
proof -
  have h: "ytt_fetch sample_env 0 ''abc12345678'' [''en'']
     = Inr [Snippet ''cats are great pets'', Snippet ''cats purr'']"
    by (simp add: sample_defs)
  from fetch_transcript_joins_snippets [OF h] h show ?thesis by simp
qed

text \<open>
  C9. When the provider reports disabled captions, \<open>fetch_transcript\<close> raises the
  transcripts-disabled failure, and for no other outcome; every other provider failure is
  raised as \<open>Failed to fetch transcript\<close> followed by the provider's message. Only the
  first attempt is read: what later attempts would return does not change the result.
\<close>

theorem fetch_transcript_failures:
  assumes "ytt_fetch e1 0 v1 [''en''] = Inl (TranscriptsDisabled m1)"
    and "ytt_fetch e2 0 v2 [''en''] = Inl (Exception m2)"
  shows "fetch_transcript e1 v1 = Inl (Exception ''Transcripts are disabled for this video'')
     \<and> fetch_transcript e2 v2 = Inl (Exception (''Failed to fetch transcript: '' @ m2))
     \<and> (fetch_transcript e v = Inl (Exception ''Transcripts are disabled for this video''))
         = (\<exists>m. ytt_fetch e 0 v [''en''] = Inl (TranscriptsDisabled m))
     \<and> fetch_transcript
         (e\<lparr> ytt_fetch := (\<lambda>attempt. if attempt = 0 then ytt_fetch e 0 else later attempt) \<rparr>) v
         = fetch_transcript e v"
  using assms by (auto simp: fetch_transcript_def split: sum.splits exn.splits)

theorem fetch_transcript_failures_witness:
  "ytt_fetch sample_env 0 ''off12345678'' [''en''] = Inl (TranscriptsDisabled ''Subtitles are disabled'')
   \<and> ytt_fetch flaky_env 0 ''abc12345678'' [''en''] = Inl (Exception ''Connection reset'')
   \<and> ytt_fetch flaky_env 1 ''abc12345678'' [''en'']
       = Inr [Snippet ''cats are great pets'', Snippet ''cats purr'']
   \<and> fetch_transcript sample_env ''off12345678''
       = Inl (Exception ''Transcripts are disabled for this video'')
   \<and> fetch_transcript flaky_env ''abc12345678''
       = Inl (Exception ''Failed to fetch transcript: Connection reset'')"
proof -
  have a: "ytt_fetch sample_env 0 ''off12345678'' [''en'']
             = Inl (TranscriptsDisabled ''Subtitles are disabled'')"
    by (simp add: sample_defs)
  have b: "ytt_fetch flaky_env 0 ''abc12345678'' [''en''] = Inl (Exception ''Connection reset'')"
    by (simp add: sample_defs)
  have c: "ytt_fetch flaky_env 1 ''abc12345678'' [''en'']
       = Inr [Snippet ''cats are great pets'', Snippet ''cats purr'']"
    by (simp add: sample_defs)
  from fetch_transcript_failures [OF a b] a b c show ?thesis by simp
qed

text \<open>
  C10. A successful \<open>process_video\<close> returns the message
  \<open>Video processed successfully\<close>, the video id it was given, the number of passages the
  chunker made of the fetched transcript, and the length of that transcript.
\<close>

theorem process_video_result:
  assumes "process_video e s vid = (Inr r, s')"
    and "fetch_transcript e vid = Inr transcript"
    and "process_transcript e s transcript = Inr chunks"
  shows "r = \<lparr> message = ''Video processed successfully'', video_id = vid,
               chunks_count = int (length chunks),
               transcript_length = int (length transcript) \<rparr>"
  using process_video_Inr [OF assms(1)] assms(2,3) by auto

theorem process_video_result_witness:
  "process_video sample_env RAGService_init ''abc12345678'' =
     (Inr \<lparr> message = ''Video processed successfully'', video_id = ''abc12345678'',
            chunks_count = 1, transcript_length = 29 \<rparr>, cats_ready)
   \<and> fetch_transcript sample_env ''abc12345678'' = Inr ''cats are great pets cats purr''
   \<and> process_transcript sample_env RAGService_init ''cats are great pets cats purr''
       = Inr [Document ''cats are great pets cats purr'']"
proof -
  have f: "fetch_transcript sample_env ''abc12345678'' = Inr ''cats are great pets cats purr''"
    by (simp add: service_defs sample_defs)
  have p: "process_transcript sample_env RAGService_init ''cats are great pets cats purr''
       = Inr [Document ''cats are great pets cats purr'']"
    by (simp add: service_defs sample_defs split_windows_short)
  obtain r where r: "process_video sample_env RAGService_init ''abc12345678'' = (Inr r, cats_ready)"
    using cats_ready_eq by blast
  from process_video_result [OF r f p] r f p show ?thesis by simp
qed

end
